theory Spec2Isabelle
  imports Complex_Main
begin

section \<open>Placeholder app-icon generator (scripts/generate\_placeholder\_icons.py)\<close>

text \<open>
  The script has two functions, \<open>create_placeholder_icon\<close> and \<open>main\<close>, one constant
  table \<open>sizes\<close> and one constant path \<open>output_dir\<close>. Everything else is the Pillow
  library, the file system and the standard output. The library calls are recorded with the
  arguments the script passes (an image is its mode, its size, its background and the list
  of drawing calls made on it); what the library answers (whether a font file loads, the
  bounding box of a text, whether a file can be written) is read from an environment, so
  that every theorem holds for whatever the library and the machine answer.
\<close>

subsection \<open>Python values\<close>

datatype py_error = OSError | OverflowError

text \<open>\<open>str\<close> of an integer, as an f-string formats it.\<close>

definition digit_char :: "nat \<Rightarrow> char" where
  "digit_char d = ''0123456789'' ! d"

fun str_nat :: "nat \<Rightarrow> string" where
  "str_nat n = (if n < 10 then [digit_char n] else str_nat (n div 10) @ [digit_char (n mod 10)])"

declare str_nat.simps [simp del]

definition str :: "int \<Rightarrow> string" where
  "str i = (if i < 0 then CHR ''-'' # str_nat (nat (- i)) else str_nat (nat i))"

subsection \<open>Binary64 arithmetic of \<open>int(min(width, height) * 0.6)\<close>\<close>

text \<open>
  A finite double is a pair \<open>(m, e)\<close> standing for \<open>m * 2 ^ e\<close>, with \<open>\<bar>m\<bar> < 2 ^ 53\<close> once
  rounded. \<open>round53\<close> rounds to 53 significant bits, ties to even, as the int-to-float
  conversion and the multiplication do.
\<close>

type_synonym double = "int \<times> int"

function bit_length :: "int \<Rightarrow> nat" where
  "bit_length n = (if n \<le> 0 then 0 else Suc (bit_length (n div 2)))"
  by pat_completeness auto
termination
  by (relation "measure nat") auto

declare bit_length.simps [simp del]

definition round53 :: "double \<Rightarrow> double" where
  "round53 v = (case v of (m, e) \<Rightarrow>
     let a = \<bar>m\<bar>; s = int (bit_length a) - 53 in
     if s \<le> 0 then (m, e)
     else
       let q = a div 2 ^ nat s;
           r = a mod 2 ^ nat s;
           half = 2 ^ (nat s - 1);
           q' = (if half < r \<or> (r = half \<and> odd q) then q + 1 else q)
       in (sgn m * q', e + s))"

text \<open>\<open>float(n)\<close>: OverflowError when the rounded value does not fit a double.\<close>

definition float_of_int :: "int \<Rightarrow> py_error + double" where
  "float_of_int n =
     (if 2 ^ 1024 - 2 ^ 970 \<le> \<bar>n\<bar> then Inl OverflowError else Inr (round53 (n, 0)))"

text \<open>The literal \<open>0.6\<close> is the double \<open>5404319552844595 * 2 ^ -53\<close>.\<close>

definition dbl_0_6 :: double where
  "dbl_0_6 = (5404319552844595, - 53)"

definition dbl_mul :: "double \<Rightarrow> double \<Rightarrow> double" where
  "dbl_mul x y = (case x of (m1, e1) \<Rightarrow> case y of (m2, e2) \<Rightarrow> round53 (m1 * m2, e1 + e2))"

text \<open>\<open>int(x)\<close> of a float truncates towards zero.\<close>

definition int_of_float :: "double \<Rightarrow> int" where
  "int_of_float x = (case x of (m, e) \<Rightarrow>
     if 0 \<le> e then m * 2 ^ nat e else sgn m * (\<bar>m\<bar> div 2 ^ nat (- e)))"

definition font_size_of :: "int \<Rightarrow> int \<Rightarrow> py_error + int" where
  "font_size_of width height =
     (case float_of_int (min width height) of
        Inl err \<Rightarrow> Inl err
      | Inr x \<Rightarrow> Inr (int_of_float (dbl_mul x dbl_0_6)))"

subsection \<open>Images, fonts and drawing calls\<close>

type_synonym color = string
type_synonym point = "int \<times> int"
type_synonym box = "int \<times> int \<times> int \<times> int"

datatype font = TrueType string int | DefaultFont

datatype draw_op =
    RoundedRectangle "point \<times> point" int color color int
  | Text point string color font

record image =
  mode :: string
  img_size :: "int \<times> int"
  background :: color
  drawn :: "draw_op list"

definition Image_new :: "string \<Rightarrow> int \<times> int \<Rightarrow> color \<Rightarrow> image" where
  "Image_new md sz col = \<lparr>mode = md, img_size = sz, background = col, drawn = []\<rparr>"

definition rounded_rectangle ::
  "image \<Rightarrow> point \<times> point \<Rightarrow> int \<Rightarrow> color \<Rightarrow> color \<Rightarrow> int \<Rightarrow> image" where
  "rounded_rectangle img xy radius fill outline wd =
     img\<lparr>drawn := drawn img @ [RoundedRectangle xy radius fill outline wd]\<rparr>"

definition draw_text :: "image \<Rightarrow> point \<Rightarrow> string \<Rightarrow> color \<Rightarrow> font \<Rightarrow> image" where
  "draw_text img position txt fill fnt = img\<lparr>drawn := drawn img @ [Text position txt fill fnt]\<rparr>"

subsection \<open>The environment and the world\<close>

text \<open>
  \<open>truetype_loads path size\<close>: whether \<open>ImageFont.truetype(path, size)\<close> returns a font
  (it raises otherwise). \<open>text_extent font text\<close>: the box \<open>(left, top, right, bottom)\<close>
  that \<open>textbbox((0, 0), text, font=font)\<close> returns. \<open>unwritable path\<close>: the file at
  \<open>path\<close> cannot be opened for writing although its directory exists.
\<close>

record environment =
  truetype_loads :: "string \<Rightarrow> int \<Rightarrow> bool"
  text_extent :: "font \<Rightarrow> string \<Rightarrow> box"
  unwritable :: "string \<Rightarrow> bool"

text \<open>
  The world the script acts on: the file system (a path is absent, a directory, or a PNG
  file that decodes to the image saved in it) and the strings given to \<open>print\<close>,
  one per call.
\<close>

datatype node = Directory | File image

record world =
  fs :: "string \<rightharpoonup> node"
  stdout :: "string list"

definition print :: "string \<Rightarrow> world \<Rightarrow> world" where
  "print s w = w\<lparr>stdout := stdout w @ [s]\<rparr>"

definition os_path_exists :: "world \<Rightarrow> string \<Rightarrow> bool" where
  "os_path_exists w path \<longleftrightarrow> fs w path \<noteq> None"

definition os_path_join :: "string \<Rightarrow> string \<Rightarrow> string" where
  "os_path_join a b =
     (if b \<noteq> [] \<and> hd b = CHR ''/'' then b
      else if a = [] \<or> last a = CHR ''/'' then a @ b
      else a @ ''/'' @ b)"

definition dirname :: "string \<Rightarrow> string" where
  "dirname p = rev (tl (dropWhile (\<lambda>c. c \<noteq> CHR ''/'') (rev p)))"

definition ImageFont_truetype :: "environment \<Rightarrow> string \<Rightarrow> int \<Rightarrow> py_error + font" where
  "ImageFont_truetype env path sz =
     (if truetype_loads env path sz then Inr (TrueType path sz) else Inl OSError)"

definition load_default :: font where
  "load_default = DefaultFont"

text \<open>The box of a text drawn at \<open>xy\<close> is its box at the origin, moved by \<open>xy\<close>.\<close>

definition textbbox :: "environment \<Rightarrow> point \<Rightarrow> string \<Rightarrow> font \<Rightarrow> box" where
  "textbbox env xy txt fnt =
     (case xy of (x, y) \<Rightarrow> case text_extent env fnt txt of (l, t, r, b) \<Rightarrow>
        (x + l, y + t, x + r, y + b))"

text \<open>
  \<open>img.save(path, 'PNG')\<close> opens the file for writing: it raises when the directory of
  the path is not a directory, when the path is itself a directory, or when the
  environment refuses the write; nothing is written then.
\<close>

definition Image_save :: "environment \<Rightarrow> image \<Rightarrow> string \<Rightarrow> world \<Rightarrow> py_error + world" where
  "Image_save env img path w =
     (if fs w (dirname path) \<noteq> Some Directory \<or> fs w path = Some Directory \<or> unwritable env path
      then Inl OSError
      else Inr (w\<lparr>fs := (fs w)(path \<mapsto> File img)\<rparr>))"

subsection \<open>The script\<close>

definition output_dir :: string where
  "output_dir = ''SwipeSort/Assets.xcassets/AppIcon.appiconset''"

definition sizes :: "(string \<times> int \<times> int) list" where
  "sizes =
    [(''AppIcon-20x20@1x.png'', 20, 20),
     (''AppIcon-20x20@2x.png'', 40, 40),
     (''AppIcon-20x20@3x.png'', 60, 60),
     (''AppIcon-29x29@1x.png'', 29, 29),
     (''AppIcon-29x29@2x.png'', 58, 58),
     (''AppIcon-29x29@3x.png'', 87, 87),
     (''AppIcon-40x40@1x.png'', 40, 40),
     (''AppIcon-40x40@2x.png'', 80, 80),
     (''AppIcon-40x40@3x.png'', 120, 120),
     (''AppIcon-60x60@2x.png'', 120, 120),
     (''AppIcon-60x60@3x.png'', 180, 180),
     (''AppIcon-76x76@1x.png'', 76, 76),
     (''AppIcon-76x76@2x.png'', 152, 152),
     (''AppIcon-83.5x83.5@2x.png'', 167, 167),
     (''AppIcon-1024x1024.png'', 1024, 1024)]"

definition border_radius_of :: "int \<Rightarrow> int \<Rightarrow> int" where
  "border_radius_of width height = min width height div 8"

definition stroke_width_of :: "int \<Rightarrow> int" where
  "stroke_width_of width = max 1 (width div 64)"

definition rectangle_xy :: "int \<Rightarrow> int \<Rightarrow> point \<times> point" where
  "rectangle_xy width height = ((0, 0), (width - 1, height - 1))"

definition helvetica :: string where
  "helvetica = ''/System/Library/Fonts/Helvetica.ttc''"

definition arial :: string where
  "arial = ''/System/Library/Fonts/Supplemental/Arial.ttf''"

text \<open>
  Lines 47 to 59: the nested \<open>try\<close> blocks. The outer handler is reached only by the
  float conversion; each inner handler by the font file above it.
\<close>

definition select_font :: "environment \<Rightarrow> int \<Rightarrow> int \<Rightarrow> font" where
  "select_font env width height =
     (case font_size_of width height of
        Inl _ \<Rightarrow> load_default
      | Inr font_size \<Rightarrow>
          (case ImageFont_truetype env helvetica font_size of
             Inr f \<Rightarrow> f
           | Inl _ \<Rightarrow>
               (case ImageFont_truetype env arial font_size of
                  Inr f \<Rightarrow> f
                | Inl _ \<Rightarrow> load_default)))"

definition text_position :: "int \<Rightarrow> int \<Rightarrow> box \<Rightarrow> point" where
  "text_position width height bbox =
     (case bbox of (b0, b1, b2, b3) \<Rightarrow>
        let text_width = b2 - b0;
            text_height = b3 - b1
        in ((width - text_width) div 2, (height - text_height) div 2 - b1))"

text \<open>Lines 33 to 68: the image the function has drawn when it reaches \<open>img.save\<close>.\<close>

definition draw_icon :: "environment \<Rightarrow> int \<Rightarrow> int \<Rightarrow> image" where
  "draw_icon env width height =
     (let img = Image_new ''RGB'' (width, height) ''#4A90E2'';
          img = rounded_rectangle img (rectangle_xy width height)
                  (border_radius_of width height) ''#5BA3F5'' ''#3A7BC8''
                  (stroke_width_of width);
          fnt = select_font env width height;
          bbox = textbbox env (0, 0) ''S'' fnt;
          position = text_position width height bbox
      in draw_text img position ''S'' ''white'' fnt)"

text \<open>The check mark U+2713 and the warning sign U+26A0 U+FE0F, in UTF-8.\<close>

definition check_mark :: string where
  "check_mark = [CHR 0xE2, CHR 0x9C, CHR 0x93]"

definition warning_sign :: string where
  "warning_sign = [CHR 0xE2, CHR 0x9A, CHR 0xA0, CHR 0xEF, CHR 0xB8, CHR 0x8F]"

definition created_line :: "string \<Rightarrow> int \<Rightarrow> int \<Rightarrow> string" where
  "created_line filename width height =
     check_mark @ '' Created: '' @ filename @ '' ('' @ str width @ ''x'' @ str height @ '')''"

definition create_placeholder_icon ::
  "environment \<Rightarrow> string \<Rightarrow> int \<Rightarrow> int \<Rightarrow> world \<Rightarrow> (py_error + unit) \<times> world" where
  "create_placeholder_icon env filename width height w =
     (let img = draw_icon env width height;
          output_path = os_path_join output_dir filename
      in case Image_save env img output_path w of
           Inl err \<Rightarrow> (Inl err, w)
         | Inr w' \<Rightarrow> (Inr (), print (created_line filename width height) w'))"

text \<open>Lines 86 and 87: the loop over \<open>sizes.items()\<close>; an exception leaves it at once.\<close>

fun generate_all ::
  "environment \<Rightarrow> (string \<times> int \<times> int) list \<Rightarrow> world \<Rightarrow> (py_error + unit) \<times> world" where
  "generate_all env [] w = (Inr (), w)"
| "generate_all env ((filename, width, height) # rest) w =
     (case create_placeholder_icon env filename width height w of
        (Inl err, w') \<Rightarrow> (Inl err, w')
      | (Inr _, w') \<Rightarrow> generate_all env rest w')"

definition error_line :: string where
  "error_line = ''Error: Directory '' @ output_dir @ '' does not exist''"

definition header_lines :: "string list" where
  "header_lines =
     [''Generating placeholder app icons...'',
      ''Output directory: '' @ output_dir @ [CHR ''\<newline>'']]"

definition completion_line :: string where
  "completion_line =
     [CHR ''\<newline>''] @ check_mark @ '' All placeholder icons generated successfully!''"

definition note_line :: string where
  "note_line = warning_sign @
     ''  Note: These are temporary placeholder images. Replace with actual app icons before release.''"

definition main :: "environment \<Rightarrow> world \<Rightarrow> (py_error + unit) \<times> world" where
  "main env w =
     (if \<not> os_path_exists w output_dir then (Inr (), print error_line w)
      else
        let w1 = print (header_lines ! 0) w;
            w2 = print (header_lines ! 1) w1
        in case generate_all env sizes w2 of
             (Inl err, w') \<Rightarrow> (Inl err, w')
           | (Inr _, w3) \<Rightarrow> (Inr (), print note_line (print completion_line w3)))"

text \<open>
  Lines 92 and 93: the process runs \<open>main()\<close>. The interpreter exits with status 0 when
  the module's code ends, and with status 1 when an exception is not handled.
\<close>

definition script :: "environment \<Rightarrow> world \<Rightarrow> int \<times> world" where
  "script env w = (case main env w of (Inr _, w') \<Rightarrow> (0, w') | (Inl _, w') \<Rightarrow> (1, w'))"

subsection \<open>What is observed of a run\<close>

text \<open>The path an entry is written to, and what the loop does when no save raises.\<close>

definition output_path_of :: "string \<Rightarrow> string" where
  "output_path_of filename = os_path_join output_dir filename"

definition is_dir :: "world \<Rightarrow> string \<Rightarrow> bool" where
  "is_dir w path \<longleftrightarrow> fs w path = Some Directory"

definition can_save :: "environment \<Rightarrow> world \<Rightarrow> string \<Rightarrow> bool" where
  "can_save env w path \<longleftrightarrow>
     is_dir w (dirname path) \<and> \<not> is_dir w path \<and> \<not> unwritable env path"

fun store_all :: "environment \<Rightarrow> (string \<times> int \<times> int) list \<Rightarrow> world \<Rightarrow> world" where
  "store_all env [] w = w"
| "store_all env ((filename, width, height) # rest) w =
     store_all env rest
       (print (created_line filename width height)
          (w\<lparr>fs := (fs w)(output_path_of filename \<mapsto> File (draw_icon env width height))\<rparr>))"

definition file_of :: "environment \<Rightarrow> string \<times> int \<times> int \<Rightarrow> string \<times> node" where
  "file_of env entry =
     (case entry of (filename, width, height) \<Rightarrow>
        (output_path_of filename, File (draw_icon env width height)))"

definition created_lines :: "(string \<times> int \<times> int) list \<Rightarrow> string list" where
  "created_lines entries = map (\<lambda>(filename, width, height). created_line filename width height) entries"

text \<open>
  Pixels of an image of size \<open>(width, height)\<close> have the coordinates \<open>0 \<dots> width - 1\<close> and
  \<open>0 \<dots> height - 1\<close>; the corners given to a drawing call are inclusive.
\<close>

definition pixel_bounds :: "image \<Rightarrow> point \<times> point" where
  "pixel_bounds img = (case img_size img of (width, height) \<Rightarrow> ((0, 0), (width - 1, height - 1)))"

definition strictly_inside :: "point \<times> point \<Rightarrow> point \<times> point \<Rightarrow> bool" where
  "strictly_inside inner outer =
     (case inner of ((x0, y0), (x1, y1)) \<Rightarrow> case outer of ((a0, b0), (a1, b1)) \<Rightarrow>
        a0 < x0 \<and> b0 < y0 \<and> x1 < a1 \<and> y1 < b1)"

fun rectangle_boxes :: "draw_op list \<Rightarrow> (point \<times> point) list" where
  "rectangle_boxes [] = []"
| "rectangle_boxes (RoundedRectangle xy radius fill outline wd # ops) = xy # rectangle_boxes ops"
| "rectangle_boxes (Text position txt fill fnt # ops) = rectangle_boxes ops"

text \<open>The boxes the glyphs cover on the canvas.\<close>

fun glyph_boxes :: "environment \<Rightarrow> draw_op list \<Rightarrow> box list" where
  "glyph_boxes env [] = []"
| "glyph_boxes env (RoundedRectangle xy radius fill outline wd # ops) = glyph_boxes env ops"
| "glyph_boxes env (Text position txt fill fnt # ops) =
     textbbox env position txt fnt # glyph_boxes env ops"

text \<open>How many entries of a list are saved before the first one whose save raises.\<close>

definition saved_count :: "environment \<Rightarrow> world \<Rightarrow> (string \<times> int \<times> int) list \<Rightarrow> nat" where
  "saved_count env w entries =
     length (takeWhile (\<lambda>entry. can_save env w (output_path_of (fst entry))) entries)"

text \<open>The pixel dimensions of the image that the file at a path decodes to.\<close>

definition saved_size :: "world \<Rightarrow> string \<Rightarrow> (int \<times> int) option" where
  "saved_size w path = (case fs w path of Some (File img) \<Rightarrow> Some (img_size img) | _ \<Rightarrow> None)"

text \<open>The size a font was loaded with; the built-in default font is given none.\<close>

definition requested_size :: "font \<Rightarrow> int option" where
  "requested_size fnt = (case fnt of TrueType path sz \<Rightarrow> Some sz | DefaultFont \<Rightarrow> None)"

subsection \<open>Concrete environments and worlds\<close>

text \<open>
  A machine where Helvetica loads, and one where no system font does. The text box of a
  TrueType font is the box \<open>(0, 164, 359, 605)\<close> of the letter S at size 614, scaled with
  the size; the text box of the default font is \<open>(0, 2, 6, 10)\<close>. Both start at the left
  origin.
\<close>

definition glyph_metrics :: "font \<Rightarrow> string \<Rightarrow> box" where
  "glyph_metrics fnt txt =
     (case fnt of
        TrueType path sz \<Rightarrow> (0, 164 * sz div 614, 359 * sz div 614, 605 * sz div 614)
      | DefaultFont \<Rightarrow> (0, 2, 6, 10))"

definition env_helvetica :: environment where
  "env_helvetica =
     \<lparr>truetype_loads = (\<lambda>path sz. path = helvetica \<and> 0 < sz),
      text_extent = glyph_metrics,
      unwritable = (\<lambda>path. False)\<rparr>"

definition env_no_fonts :: environment where
  "env_no_fonts =
     \<lparr>truetype_loads = (\<lambda>path sz. False),
      text_extent = glyph_metrics,
      unwritable = (\<lambda>path. False)\<rparr>"

definition world_missing :: world where
  "world_missing = \<lparr>fs = Map.empty, stdout = []\<rparr>"

definition world_ready :: world where
  "world_ready = \<lparr>fs = [output_dir \<mapsto> Directory], stdout = []\<rparr>"

definition world_blocked :: world where
  "world_blocked =
     \<lparr>fs = [output_dir \<mapsto> Directory, output_path_of ''AppIcon-29x29@1x.png'' \<mapsto> Directory],
      stdout = []\<rparr>"

text \<open>The world after the two header lines, and after the two closing lines.\<close>

definition started :: "world \<Rightarrow> world" where
  "started w = print (header_lines ! 1) (print (header_lines ! 0) w)"

definition finished :: "world \<Rightarrow> world" where
  "finished w = print note_line (print completion_line w)"

section \<open>Properties\<close>

subsection \<open>Paths, saving and the loop\<close>

lemma floor_div_numeral: "\<lfloor>real_of_int k / numeral n\<rfloor> = k div numeral n"
proof -
  have "\<lfloor>real_of_int k / real_of_int (numeral n)\<rfloor> = k div numeral n"
    by (rule floor_divide_of_int_eq)
  then show ?thesis by simp
qed

lemma os_path_join_neq_dir: "os_path_join output_dir f \<noteq> output_dir"
  by (auto simp: os_path_join_def output_dir_def)

lemma os_path_join_inj: "os_path_join output_dir f = os_path_join output_dir g \<Longrightarrow> f = g"
  by (auto simp: os_path_join_def output_dir_def split: if_splits)

lemma Image_save_ok:
  "can_save env w path \<Longrightarrow> Image_save env img path w = Inr (w\<lparr>fs := (fs w)(path \<mapsto> File img)\<rparr>)"
  by (simp add: Image_save_def can_save_def is_dir_def)

lemma Image_save_fails:
  "\<not> can_save env w path \<Longrightarrow> Image_save env img path w = Inl OSError"
  by (auto simp add: Image_save_def can_save_def is_dir_def)

lemma create_ok:
  "can_save env w (output_path_of f) \<Longrightarrow>
   create_placeholder_icon env f wd ht w = (Inr (), store_all env [(f, wd, ht)] w)"
  by (simp add: create_placeholder_icon_def Let_def Image_save_ok output_path_of_def [symmetric])

lemma create_fails:
  "\<not> can_save env w (output_path_of f) \<Longrightarrow>
   create_placeholder_icon env f wd ht w = (Inl OSError, w)"
  by (simp add: create_placeholder_icon_def Let_def Image_save_fails output_path_of_def [symmetric])

lemma is_dir_step:
  "\<not> is_dir w p \<Longrightarrow> is_dir (print s (w\<lparr>fs := (fs w)(p \<mapsto> File img)\<rparr>)) q = is_dir w q"
  by (auto simp: is_dir_def print_def)

lemma can_save_step:
  "can_save env w p \<Longrightarrow>
   can_save env (print s (w\<lparr>fs := (fs w)(p \<mapsto> File img)\<rparr>)) q = can_save env w q"
  by (simp add: can_save_def is_dir_step)

lemma generate_all_ok:
  "\<forall>e \<in> set es. can_save env w (output_path_of (fst e)) \<Longrightarrow>
   generate_all env es w = (Inr (), store_all env es w)"
proof (induction es arbitrary: w)
  case Nil
  then show ?case by simp
next
  case (Cons e es)
  obtain f wd ht where e: "e = (f, wd, ht)" by (cases e) auto
  from Cons.prems have ok: "can_save env w (output_path_of f)" by (simp add: e)
  let ?w1 = "print (created_line f wd ht)
     (w\<lparr>fs := (fs w)(output_path_of f \<mapsto> File (draw_icon env wd ht))\<rparr>)"
  have "\<forall>e \<in> set es. can_save env ?w1 (output_path_of (fst e))"
    using Cons.prems ok by (simp add: can_save_step)
  then have "generate_all env es ?w1 = (Inr (), store_all env es ?w1)"
    by (rule Cons.IH)
  then show ?case by (simp add: e create_ok [OF ok])
qed

lemma generate_all_fails:
  "\<forall>e \<in> set pre. can_save env w (output_path_of (fst e)) \<Longrightarrow>
   \<not> can_save env w (output_path_of f) \<Longrightarrow>
   generate_all env (pre @ (f, wd, ht) # post) w = (Inl OSError, store_all env pre w)"
proof (induction pre arbitrary: w)
  case Nil
  then show ?case by (simp add: create_fails)
next
  case (Cons e es)
  obtain g wd' ht' where e: "e = (g, wd', ht')" by (cases e) auto
  from Cons.prems have ok: "can_save env w (output_path_of g)" by (simp add: e)
  let ?w1 = "print (created_line g wd' ht')
     (w\<lparr>fs := (fs w)(output_path_of g \<mapsto> File (draw_icon env wd' ht'))\<rparr>)"
  have a: "\<forall>e \<in> set es. can_save env ?w1 (output_path_of (fst e))"
    using Cons.prems ok by (simp add: can_save_step)
  have b: "\<not> can_save env ?w1 (output_path_of f)"
    using Cons.prems ok by (simp add: can_save_step)
  have "generate_all env (es @ (f, wd, ht) # post) ?w1 = (Inl OSError, store_all env es ?w1)"
    using a b by (rule Cons.IH)
  then show ?case by (simp add: e create_ok [OF ok])
qed

lemma generate_all_returns:
  "generate_all env es w = (Inr u, w') \<Longrightarrow>
   w' = store_all env es w \<and> (\<forall>e \<in> set es. can_save env w (output_path_of (fst e)))"
proof (induction es arbitrary: w)
  case Nil
  then show ?case by simp
next
  case (Cons e es)
  obtain f wd ht where e: "e = (f, wd, ht)" by (cases e) auto
  show ?case
  proof (cases "can_save env w (output_path_of f)")
    case False
    with Cons.prems show ?thesis by (simp add: e create_fails)
  next
    case True
    let ?w1 = "print (created_line f wd ht)
       (w\<lparr>fs := (fs w)(output_path_of f \<mapsto> File (draw_icon env wd ht))\<rparr>)"
    from Cons.prems True have "generate_all env es ?w1 = (Inr u, w')"
      by (simp add: e create_ok)
    then have "w' = store_all env es ?w1 \<and> (\<forall>e \<in> set es. can_save env ?w1 (output_path_of (fst e)))"
      by (rule Cons.IH)
    then show ?thesis using True by (simp add: e can_save_step)
  qed
qed

lemma stdout_store_all:
  "stdout (store_all env es w) = stdout w @ created_lines es"
  by (induction es arbitrary: w) (auto simp: created_lines_def print_def)

lemma map_add_upd_front:
  "m(k \<mapsto> v) ++ n = m ++ (map_of [(k, v)] ++ n)"
  by (rule ext) (simp add: map_add_def split: option.splits)

lemma fs_store_all:
  "fs (store_all env es w) = fs w ++ map_of (rev (map (file_of env) es))"
proof (induction es arbitrary: w)
  case Nil
  then show ?case by simp
next
  case (Cons e es)
  obtain f wd ht where e: "e = (f, wd, ht)" by (cases e) auto
  define k where "k = output_path_of f"
  define v where "v = File (draw_icon env wd ht)"
  define n where "n = map_of (rev (map (file_of env) es))"
  define w1 where "w1 = print (created_line f wd ht) (w\<lparr>fs := (fs w)(k \<mapsto> v)\<rparr>)"
  have "fs (store_all env (e # es) w) = fs (store_all env es w1)"
    by (simp add: e w1_def k_def v_def)
  also have "\<dots> = fs w1 ++ n"
    unfolding n_def by (rule Cons.IH)
  also have "fs w1 = (fs w)(k \<mapsto> v)"
    by (simp add: w1_def print_def)
  also have "(fs w)(k \<mapsto> v) ++ n = fs w ++ (map_of [(k, v)] ++ n)"
    by (rule map_add_upd_front)
  also have "map_of [(k, v)] ++ n = map_of (rev (map (file_of env) (e # es)))"
    by (simp add: e file_of_def k_def v_def n_def del: map_of.simps)
  finally show ?case .
qed

lemma file_of_inj: "fst (file_of env a) = fst (file_of env b) \<Longrightarrow> fst a = fst b"
  by (cases a, cases b) (auto simp: file_of_def output_path_of_def dest: os_path_join_inj)

lemma distinct_paths:
  "distinct (map fst es) \<Longrightarrow> distinct (map fst (map (file_of env) es))"
proof (induction es)
  case Nil
  then show ?case by simp
next
  case (Cons e es)
  have "fst (file_of env e) \<notin> fst ` file_of env ` set es"
  proof
    assume "fst (file_of env e) \<in> fst ` file_of env ` set es"
    then obtain x where x: "x \<in> set es" "fst (file_of env e) = fst (file_of env x)" by auto
    then have "fst e = fst x" by (auto dest: file_of_inj)
    with x Cons.prems show False by force
  qed
  with Cons show ?case by (simp add: image_comp)
qed

lemma fs_store_all_entry:
  assumes "distinct (map fst es)" and "(f, wd, ht) \<in> set es"
  shows "fs (store_all env es w) (output_path_of f) = Some (File (draw_icon env wd ht))"
proof -
  have d: "distinct (map fst (rev (map (file_of env) es)))"
    using distinct_paths [OF assms(1), of env] by (simp add: rev_map [symmetric] del: map_map)
  have "(output_path_of f, File (draw_icon env wd ht)) \<in> set (rev (map (file_of env) es))"
    using assms(2) by (force simp: file_of_def)
  with d have "map_of (rev (map (file_of env) es)) (output_path_of f) = Some (File (draw_icon env wd ht))"
    by (rule map_of_is_SomeI)
  then show ?thesis by (simp add: fs_store_all map_add_def)
qed

lemma fs_store_all_other:
  "p \<notin> output_path_of ` fst ` set es \<Longrightarrow> fs (store_all env es w) p = fs w p"
  by (induction es arbitrary: w) (auto simp: print_def)

lemma can_save_store_all:
  "\<forall>e \<in> set es. can_save env w (output_path_of (fst e)) \<Longrightarrow>
   can_save env (store_all env es w) q = can_save env w q"
proof (induction es arbitrary: w)
  case Nil
  then show ?case by simp
next
  case (Cons e es)
  obtain f wd ht where e: "e = (f, wd, ht)" by (cases e) auto
  from Cons.prems have ok: "can_save env w (output_path_of f)" by (simp add: e)
  let ?w1 = "print (created_line f wd ht)
     (w\<lparr>fs := (fs w)(output_path_of f \<mapsto> File (draw_icon env wd ht))\<rparr>)"
  have "\<forall>e \<in> set es. can_save env ?w1 (output_path_of (fst e))"
    using Cons.prems ok by (simp add: can_save_step)
  then have "can_save env (store_all env es ?w1) q = can_save env ?w1 q"
    by (rule Cons.IH)
  then show ?case using ok by (simp add: e can_save_step)
qed

lemma can_save_print: "can_save env (print s w) q = can_save env w q"
  by (simp add: can_save_def is_dir_def print_def)

lemma sizes_distinct: "distinct (map fst sizes)"
  by (simp add: sizes_def)

lemma main_missing:
  "\<not> os_path_exists w output_dir \<Longrightarrow> main env w = (Inr (), print error_line w)"
  by (simp add: main_def)

lemma main_ok:
  assumes "os_path_exists w output_dir"
    and "\<forall>e \<in> set sizes. can_save env w (output_path_of (fst e))"
  shows "main env w = (Inr (), finished (store_all env sizes (started w)))"
proof -
  have "\<forall>e \<in> set sizes. can_save env (started w) (output_path_of (fst e))"
    using assms(2) by (simp add: started_def can_save_print)
  then have "generate_all env sizes (started w) = (Inr (), store_all env sizes (started w))"
    by (rule generate_all_ok)
  then show ?thesis using assms(1) by (simp add: main_def Let_def started_def finished_def)
qed

lemma main_returns:
  assumes "os_path_exists w output_dir" and "fst (main env w) = Inr ()"
  shows "main env w = (Inr (), finished (store_all env sizes (started w)))
     \<and> (\<forall>e \<in> set sizes. can_save env w (output_path_of (fst e)))"
proof -
  obtain r w' where g: "generate_all env sizes (started w) = (r, w')"
    by (cases "generate_all env sizes (started w)")
  from assms g have "r = Inr ()"
    by (cases r) (auto simp: main_def Let_def started_def)
  with g have "w' = store_all env sizes (started w)
      \<and> (\<forall>e \<in> set sizes. can_save env (started w) (output_path_of (fst e)))"
    using generate_all_returns by blast
  then show ?thesis using assms(1) g \<open>r = Inr ()\<close>
    by (simp add: main_def Let_def started_def finished_def can_save_print)
qed

lemma main_fails:
  assumes "os_path_exists w output_dir"
    and "i < length sizes"
    and "\<forall>e \<in> set (take i sizes). can_save env w (output_path_of (fst e))"
    and "\<not> can_save env w (output_path_of (fst (sizes ! i)))"
  shows "main env w = (Inl OSError, store_all env (take i sizes) (started w))"
proof -
  obtain f wd ht where e: "sizes ! i = (f, wd, ht)" by (cases "sizes ! i") auto
  have split: "sizes = take i sizes @ (f, wd, ht) # drop (Suc i) sizes"
    using assms(2) e by (metis id_take_nth_drop)
  have a: "\<forall>e \<in> set (take i sizes). can_save env (started w) (output_path_of (fst e))"
    using assms(3) by (simp add: started_def can_save_print)
  have b: "\<not> can_save env (started w) (output_path_of f)"
    using assms(4) e by (simp add: started_def can_save_print)
  have "generate_all env (take i sizes @ (f, wd, ht) # drop (Suc i) sizes) (started w)
      = (Inl OSError, store_all env (take i sizes) (started w))"
    using a b by (rule generate_all_fails)
  then have "generate_all env sizes (started w) = (Inl OSError, store_all env (take i sizes) (started w))"
    using split by simp
  then show ?thesis using assms(1) by (simp add: main_def Let_def started_def)
qed

subsection \<open>The whole run\<close>

lemma fs_print [simp]: "fs (print s w) = fs w"
  by (simp add: print_def)

lemma fs_started [simp]: "fs (started w) = fs w"
  by (simp add: started_def)

lemma fs_finished [simp]: "fs (finished w) = fs w"
  by (simp add: finished_def)

lemma stdout_started: "stdout (started w) = stdout w @ header_lines"
  by (simp add: started_def print_def header_lines_def)

lemma stdout_finished: "stdout (finished w) = stdout w @ [completion_line, note_line]"
  by (simp add: finished_def print_def)

lemma generate_all_eq:
  "generate_all env es w =
     (if saved_count env w es = length es then Inr () else Inl OSError,
      store_all env (take (saved_count env w es) es) w)"
proof -
  let ?P = "\<lambda>e. can_save env w (output_path_of (fst e))"
  show ?thesis
  proof (cases "dropWhile ?P es")
    case Nil
    then have all: "\<forall>e \<in> set es. ?P e"
      by (simp add: dropWhile_eq_Nil_conv)
    then have "saved_count env w es = length es"
      by (metis saved_count_def takeWhile_eq_all_conv)
    then show ?thesis using generate_all_ok [OF all] by simp
  next
    case (Cons x rest)
    obtain f wd ht where x: "x = (f, wd, ht)" by (cases x) auto
    define tw where "tw = takeWhile ?P es"
    have es: "es = tw @ (f, wd, ht) # rest"
      using Cons x takeWhile_dropWhile_id [of ?P es] by (simp add: tw_def)
    have bad: "\<not> can_save env w (output_path_of f)"
      using Cons x hd_dropWhile [of ?P es] by force
    have good: "\<forall>e \<in> set tw. ?P e"
      by (auto simp: tw_def dest: set_takeWhileD)
    have cnt: "saved_count env w es = length tw"
      by (simp add: saved_count_def tw_def)
    have len: "length tw < length es"
      by (subst es) simp
    have tk: "take (length tw) es = tw"
      by (subst es) simp
    have "generate_all env (tw @ (f, wd, ht) # rest) w = (Inl OSError, store_all env tw w)"
      using good bad by (rule generate_all_fails)
    then have "generate_all env es w = (Inl OSError, store_all env tw w)"
      using es by simp
    then show ?thesis using len tk cnt by simp
  qed
qed

lemma saved_count_print: "saved_count env (print s w) es = saved_count env w es"
  by (simp add: saved_count_def can_save_print)

lemma saved_count_started: "saved_count env (started w) es = saved_count env w es"
  by (simp add: started_def saved_count_print)

lemma main_eq:
  "os_path_exists w output_dir \<Longrightarrow>
   main env w =
     (if saved_count env w sizes = length sizes
      then (Inr (), finished (store_all env sizes (started w)))
      else (Inl OSError, store_all env (take (saved_count env w sizes) sizes) (started w)))"
  unfolding main_def Let_def started_def [symmetric] generate_all_eq saved_count_started
  by (simp add: finished_def)

lemma can_save_loads: "can_save (env\<lparr>truetype_loads := l\<rparr>) w p = can_save env w p"
  by (simp add: can_save_def)

lemma saved_count_loads: "saved_count (env\<lparr>truetype_loads := l\<rparr>) w es = saved_count env w es"
  by (simp add: saved_count_def can_save_loads)

lemma main_status_loads:
  "fst (main (env\<lparr>truetype_loads := l\<rparr>) w) = fst (main env w)
   \<and> stdout (snd (main (env\<lparr>truetype_loads := l\<rparr>) w)) = stdout (snd (main env w))"
proof (cases "os_path_exists w output_dir")
  case False
  then show ?thesis by (simp add: main_missing)
next
  case True
  then show ?thesis
    by (simp add: main_eq saved_count_loads stdout_finished stdout_store_all)
qed

lemma dirname_output_path:
  assumes "CHR ''/'' \<notin> set f"
  shows "dirname (output_path_of f) = output_dir"
proof -
  have j: "output_path_of f = output_dir @ ''/'' @ f"
    using assms by (cases f) (auto simp: output_path_of_def os_path_join_def output_dir_def)
  have "dropWhile (\<lambda>c. c \<noteq> CHR ''/'') (rev f @ CHR ''/'' # rev output_dir) = CHR ''/'' # rev output_dir"
    using assms by (auto simp: dropWhile_append3)
  then show ?thesis by (simp add: dirname_def j)
qed

lemma sizes_no_slash: "\<forall>e \<in> set sizes. CHR ''/'' \<notin> set (fst e)"
  by (simp add: sizes_def)

lemma output_path_neq_dir: "output_path_of f \<noteq> output_dir"
  by (simp add: output_path_of_def os_path_join_neq_dir)

lemma world_ready_can_save:
  assumes "e \<in> set sizes" and "unwritable env = (\<lambda>path. False)"
  shows "can_save env world_ready (output_path_of (fst e))"
proof -
  have "dirname (output_path_of (fst e)) = output_dir"
    using assms(1) sizes_no_slash by (simp add: dirname_output_path)
  then show ?thesis
    using assms(2) by (simp add: can_save_def is_dir_def world_ready_def output_path_neq_dir)
qed

lemma world_ready_exists: "os_path_exists world_ready output_dir"
  by (simp add: os_path_exists_def world_ready_def)

lemma main_world_ready:
  "main env_helvetica world_ready = (Inr (), finished (store_all env_helvetica sizes (started world_ready)))"
  by (rule main_ok [OF world_ready_exists]) (simp add: world_ready_can_save env_helvetica_def)

lemma img_size_draw_icon: "img_size (draw_icon env wd ht) = (wd, ht)"
  by (simp add: draw_icon_def Let_def draw_text_def rounded_rectangle_def Image_new_def)

lemma drawn_draw_icon:
  "drawn (draw_icon env wd ht) =
     [RoundedRectangle (rectangle_xy wd ht) (border_radius_of wd ht) ''#5BA3F5'' ''#3A7BC8''
        (stroke_width_of wd),
      Text (text_position wd ht (textbbox env (0, 0) ''S'' (select_font env wd ht))) ''S'' ''white''
        (select_font env wd ht)]"
  by (simp add: draw_icon_def Let_def draw_text_def rounded_rectangle_def Image_new_def)

lemma sizes_positive: "\<forall>e \<in> set sizes. 0 < fst (snd e) \<and> 0 < snd (snd e)"
  by (simp add: sizes_def)

lemma sizes_font_size:
  "\<forall>e \<in> set sizes. font_size_of (fst (snd e)) (snd (snd e)) = Inr (3 * min (fst (snd e)) (snd (snd e)) div 5)"
  by (simp add: sizes_def font_size_of_def float_of_int_def round53_def dbl_mul_def dbl_0_6_def
      int_of_float_def bit_length.simps Let_def)

subsection \<open>Fonts, glyph boxes and printed lines at concrete inputs\<close>

lemma font_size_1024: "font_size_of 1024 1024 = Inr 614"
  by (simp add: font_size_of_def float_of_int_def round53_def dbl_mul_def dbl_0_6_def
      int_of_float_def bit_length.simps Let_def)

lemma select_font_helvetica: "select_font env_helvetica 1024 1024 = TrueType helvetica 614"
  by (simp add: select_font_def font_size_1024 ImageFont_truetype_def env_helvetica_def)

lemma select_font_no_fonts: "select_font env_no_fonts wd ht = DefaultFont"
  by (simp add: select_font_def ImageFont_truetype_def env_no_fonts_def load_default_def split: sum.splits)

lemma glyph_ops:
  assumes "text_extent env (select_font env width height) ''S'' = (l, t, r, b)"
  shows "drawn (draw_icon env width height) =
     [RoundedRectangle (rectangle_xy width height) (border_radius_of width height)
        ''#5BA3F5'' ''#3A7BC8'' (stroke_width_of width),
      Text ((width - (r - l)) div 2, (height - (b - t)) div 2 - t) ''S'' ''white''
        (select_font env width height)]"
  using assms by (simp add: drawn_draw_icon textbbox_def text_position_def Let_def)

lemma text_extent_concrete:
  "text_extent env_helvetica = glyph_metrics" "text_extent env_no_fonts = glyph_metrics"
  by (simp_all add: env_helvetica_def env_no_fonts_def)

lemma printed_lines_literal:
  "header_lines @ created_lines sizes @ [completion_line, note_line] =
     [''Generating placeholder app icons...'',
      ''Output directory: SwipeSort/Assets.xcassets/AppIcon.appiconset'' @ [CHR ''\<newline>'']] @
     map (\<lambda>line. [CHR 0xE2, CHR 0x9C, CHR 0x93] @ '' Created: '' @ line)
       [''AppIcon-20x20@1x.png (20x20)'',
         ''AppIcon-20x20@2x.png (40x40)'',
         ''AppIcon-20x20@3x.png (60x60)'',
         ''AppIcon-29x29@1x.png (29x29)'',
         ''AppIcon-29x29@2x.png (58x58)'',
         ''AppIcon-29x29@3x.png (87x87)'',
         ''AppIcon-40x40@1x.png (40x40)'',
         ''AppIcon-40x40@2x.png (80x80)'',
         ''AppIcon-40x40@3x.png (120x120)'',
         ''AppIcon-60x60@2x.png (120x120)'',
         ''AppIcon-60x60@3x.png (180x180)'',
         ''AppIcon-76x76@1x.png (76x76)'',
         ''AppIcon-76x76@2x.png (152x152)'',
         ''AppIcon-83.5x83.5@2x.png (167x167)'',
         ''AppIcon-1024x1024.png (1024x1024)''] @
     [[CHR ''\<newline>'', CHR 0xE2, CHR 0x9C, CHR 0x93] @
        '' All placeholder icons generated successfully!'',
      [CHR 0xE2, CHR 0x9A, CHR 0xA0, CHR 0xEF, CHR 0xB8, CHR 0x8F] @
        ''  Note: These are temporary placeholder images. Replace with actual app icons before release.'']"
  by (simp add: header_lines_def created_lines_def sizes_def created_line_def completion_line_def
      note_line_def check_mark_def warning_sign_def output_dir_def str_def str_nat.simps
      digit_char_def)

subsection \<open>A run that is stopped\<close>

lemma world_blocked_exists: "os_path_exists world_blocked output_dir"
  by (simp add: os_path_exists_def world_blocked_def output_path_neq_dir)

lemma world_blocked_can_save:
  assumes "CHR ''/'' \<notin> set f"
  shows "can_save env_helvetica world_blocked (output_path_of f) \<longleftrightarrow> f \<noteq> ''AppIcon-29x29@1x.png''"
proof -
  have "output_path_of f = output_path_of ''AppIcon-29x29@1x.png'' \<longleftrightarrow> f = ''AppIcon-29x29@1x.png''"
    unfolding output_path_of_def using os_path_join_inj by blast
  then show ?thesis
    using assms output_path_neq_dir [of f]
    by (simp add: can_save_def is_dir_def world_blocked_def dirname_output_path env_helvetica_def)
qed

section \<open>The claims\<close>

text \<open>
  C1. The table \<open>sizes\<close> has exactly 15 entries, their file names are pairwise distinct,
  every declared width and height is positive, the image drawn for an entry has exactly the
  declared dimensions, and after a run that returns normally with the output directory
  present, the file at every entry's output path decodes to an image of the declared
  dimensions.
\<close>

theorem C1_table_and_dimensions:
  "length sizes = 15
   \<and> distinct (map fst sizes)
   \<and> (\<forall>(filename, width, height) \<in> set sizes.
        0 < width \<and> 0 < height \<and> img_size (draw_icon env width height) = (width, height))
   \<and> (os_path_exists w output_dir \<longrightarrow> fst (main env w) = Inr () \<longrightarrow>
        (\<forall>(filename, width, height) \<in> set sizes.
           saved_size (snd (main env w)) (output_path_of filename) = Some (width, height)))"
proof -
  have a: "length sizes = 15" by (simp add: sizes_def)
  have b: "\<forall>(filename, width, height) \<in> set sizes.
        0 < width \<and> 0 < height \<and> img_size (draw_icon env width height) = (width, height)"
    using sizes_positive by (auto simp: img_size_draw_icon)
  have c: "saved_size (snd (main env w)) (output_path_of f) = Some (wd, ht)"
    if "os_path_exists w output_dir" "fst (main env w) = Inr ()" "(f, wd, ht) \<in> set sizes"
    for f wd ht
  proof -
    from that(1,2) have "snd (main env w) = finished (store_all env sizes (started w))"
      using main_returns by fastforce
    then have "fs (snd (main env w)) (output_path_of f) = Some (File (draw_icon env wd ht))"
      using fs_store_all_entry [OF sizes_distinct that(3)] by simp
    then show ?thesis by (simp add: saved_size_def img_size_draw_icon)
  qed
  show ?thesis using a b c sizes_distinct by blast
qed

theorem C1_table_and_dimensions_witness:
  "os_path_exists world_ready output_dir
   \<and> fst (main env_helvetica world_ready) = Inr ()
   \<and> saved_size (snd (main env_helvetica world_ready)) (output_path_of ''AppIcon-1024x1024.png'')
       = Some (1024, 1024)
   \<and> saved_size (snd (main env_helvetica world_ready)) (output_path_of ''AppIcon-20x20@1x.png'')
       = Some (20, 20)"
proof -
  have m: "fst (main env_helvetica world_ready) = Inr ()"
    by (simp add: main_world_ready)
  have e1: "(''AppIcon-1024x1024.png'', 1024, 1024) \<in> set sizes"
    by (simp add: sizes_def)
  have e2: "(''AppIcon-20x20@1x.png'', 20, 20) \<in> set sizes"
    by (simp add: sizes_def)
  show ?thesis
    using C1_table_and_dimensions [of env_helvetica world_ready] world_ready_exists m e1 e2
    by fast
qed

text \<open>
  C2. When the output directory does not exist, \<open>main\<close> prints the diagnostic line
  and returns at once: the standard output gains exactly that line and the file system is
  left as it was, so no image file is written.
\<close>

theorem C2_missing_directory:
  assumes "\<not> os_path_exists w output_dir"
  shows "main env w = (Inr (), print error_line w)
     \<and> stdout (snd (main env w)) = stdout w @ [''Error: Directory SwipeSort/Assets.xcassets/AppIcon.appiconset does not exist'']
     \<and> fs (snd (main env w)) = fs w"
  using assms by (simp add: main_missing print_def error_line_def output_dir_def)

theorem C2_missing_directory_witness:
  "\<not> os_path_exists world_missing output_dir
   \<and> stdout (snd (main env_helvetica world_missing)) = [''Error: Directory SwipeSort/Assets.xcassets/AppIcon.appiconset does not exist'']
   \<and> fs (snd (main env_helvetica world_missing)) = Map.empty"
proof -
  have h: "\<not> os_path_exists world_missing output_dir"
    by (simp add: os_path_exists_def world_missing_def)
  have s: "stdout world_missing = []" "fs world_missing = Map.empty"
    by (simp_all add: world_missing_def)
  show ?thesis
    using h C2_missing_directory [OF h, of env_helvetica, THEN conjunct2] s by simp
qed

text \<open>
  C3. For every width and height (so for every entry of the table), the rounded rectangle
  is the first drawing call, its corner radius is the floor of \<open>min width height / 8\<close>
  and its stroke width is the larger of 1 and the floor of \<open>width / 64\<close>; for a
  1024 by 1024 canvas the radius is 128 and the stroke width 16.
\<close>

theorem C3_radius_and_stroke:
  "drawn (draw_icon env width height) ! 0 =
     RoundedRectangle ((0, 0), (width - 1, height - 1))
       \<lfloor>real_of_int (min width height) / 8\<rfloor> ''#5BA3F5'' ''#3A7BC8''
       (max 1 \<lfloor>real_of_int width / 64\<rfloor>)
   \<and> drawn (draw_icon env 1024 1024) ! 0 =
     RoundedRectangle ((0, 0), (1023, 1023)) 128 ''#5BA3F5'' ''#3A7BC8'' 16"
  by (simp add: drawn_draw_icon rectangle_xy_def border_radius_of_def stroke_width_of_def
      floor_div_numeral)

theorem C3_radius_and_stroke_witness:
  "drawn (draw_icon env_helvetica 40 40) ! 0 =
     RoundedRectangle ((0, 0), (39, 39)) 5 ''#5BA3F5'' ''#3A7BC8'' 1"
proof -
  have "\<lfloor>real_of_int (min 40 40) / 8\<rfloor> = 5" "max 1 \<lfloor>real_of_int 40 / 64\<rfloor> = 1"
    by (simp_all add: floor_div_numeral)
  with C3_radius_and_stroke [of env_helvetica 40 40] show ?thesis by simp
qed

text \<open>
  C5, as stated, fails where no system font loads: on the 1024 by 1024 canvas the glyph is
  then drawn with the built-in default font, which is not given the size 614 that was
  computed.
\<close>

theorem C5_glyph_counterexample:
  "drawn (draw_icon env_no_fonts 1024 1024) ! 1 = Text (509, 506) ''S'' ''white'' DefaultFont
   \<and> font_size_of 1024 1024 = Inr 614
   \<and> requested_size DefaultFont \<noteq> Some 614"
proof -
  have "text_extent env_no_fonts (select_font env_no_fonts 1024 1024) ''S'' = (0, 2, 6, 10)"
    by (simp add: select_font_no_fonts text_extent_concrete glyph_metrics_def)
  then have "drawn (draw_icon env_no_fonts 1024 1024) ! 1 = Text (509, 506) ''S'' ''white'' DefaultFont"
    by (simp add: glyph_ops select_font_no_fonts)
  then show ?thesis by (simp add: font_size_1024 requested_size_def)
qed

text \<open>
  C5, amended. For every width and height two drawing calls are made, and the second draws
  the one glyph: the letter S, in white, with the selected font. When one of the two system
  fonts loads at the size \<open>int(min(width, height) * 0.6)\<close>, the glyph is drawn at that size;
  otherwise it is drawn with the built-in default font, to which the size is not given. The
  size is \<open>3 * min(width, height) div 5\<close> for every entry of the table, and 614 for
  1024 by 1024. The glyph's box is centred vertically: the margins above and below it
  differ by at most one pixel. It is centred horizontally in the same sense when the text
  box that the library reports at the origin starts at the left origin, which is what it
  reports for the letter S.
\<close>

theorem C5_glyph_font_and_centre:
  assumes "text_extent env (select_font env width height) ''S'' = (l, t, r, b)"
  shows "length (drawn (draw_icon env width height)) = 2
     \<and> drawn (draw_icon env width height) ! 1 =
         Text ((width - (r - l)) div 2, (height - (b - t)) div 2 - t) ''S'' ''white''
           (select_font env width height)
     \<and> (case font_size_of width height of
          Inr font_size \<Rightarrow>
            if truetype_loads env helvetica font_size \<or> truetype_loads env arial font_size
            then requested_size (select_font env width height) = Some font_size
            else select_font env width height = DefaultFont
        | Inl err \<Rightarrow> select_font env width height = DefaultFont)
     \<and> (\<forall>(filename, wd, ht) \<in> set sizes. font_size_of wd ht = Inr (3 * min wd ht div 5))
     \<and> font_size_of 1024 1024 = Inr 614
     \<and> glyph_boxes env (drawn (draw_icon env width height)) =
         [((width - (r - l)) div 2 + l, (height - (b - t)) div 2,
           (width - (r - l)) div 2 + r, (height - (b - t)) div 2 - t + b)]
     \<and> (case hd (glyph_boxes env (drawn (draw_icon env width height))) of
          (x0, y0, x1, y1) \<Rightarrow>
            \<bar>y0 - (height - y1)\<bar> \<le> 1 \<and> (l = 0 \<longrightarrow> \<bar>x0 - (width - x1)\<bar> \<le> 1))"
proof -
  note ops = glyph_ops [OF assms]
  have a: "(case font_size_of width height of
        Inr font_size \<Rightarrow>
          if truetype_loads env helvetica font_size \<or> truetype_loads env arial font_size
          then requested_size (select_font env width height) = Some font_size
          else select_font env width height = DefaultFont
      | Inl err \<Rightarrow> select_font env width height = DefaultFont)"
    by (simp add: select_font_def ImageFont_truetype_def load_default_def requested_size_def
        split: sum.splits)
  have b: "\<forall>(filename, wd, ht) \<in> set sizes. font_size_of wd ht = Inr (3 * min wd ht div 5)"
    using sizes_font_size by auto
  have boxes: "glyph_boxes env (drawn (draw_icon env width height)) =
         [((width - (r - l)) div 2 + l, (height - (b - t)) div 2,
           (width - (r - l)) div 2 + r, (height - (b - t)) div 2 - t + b)]"
    using assms by (simp add: ops textbbox_def)
  have v: "\<bar>(height - (b - t)) div 2 - (height - ((height - (b - t)) div 2 - t + b))\<bar> \<le> 1"
    by presburger
  have h: "\<bar>(width - r) div 2 - (width - ((width - r) div 2 + r))\<bar> \<le> 1"
    by presburger
  have c: "(case hd (glyph_boxes env (drawn (draw_icon env width height))) of
          (x0, y0, x1, y1) \<Rightarrow>
            \<bar>y0 - (height - y1)\<bar> \<le> 1 \<and> (l = 0 \<longrightarrow> \<bar>x0 - (width - x1)\<bar> \<le> 1))"
    using v h by (simp add: boxes)
  have d: "length (drawn (draw_icon env width height)) = 2"
    "drawn (draw_icon env width height) ! 1 =
         Text ((width - (r - l)) div 2, (height - (b - t)) div 2 - t) ''S'' ''white''
           (select_font env width height)"
    by (simp_all add: ops)
  from d a b font_size_1024 boxes c show ?thesis by (intro conjI)
qed

theorem C5_glyph_font_and_centre_witness:
  "text_extent env_helvetica (select_font env_helvetica 1024 1024) ''S'' = (0, 164, 359, 605)
   \<and> drawn (draw_icon env_helvetica 1024 1024) ! 1 =
        Text (332, 127) ''S'' ''white'' (TrueType helvetica 614)
   \<and> glyph_boxes env_helvetica (drawn (draw_icon env_helvetica 1024 1024)) = [(332, 291, 691, 732)]
   \<and> font_size_of 20 20 = Inr 12"
proof -
  have x: "text_extent env_helvetica (select_font env_helvetica 1024 1024) ''S'' = (0, 164, 359, 605)"
    by (simp add: select_font_helvetica text_extent_concrete glyph_metrics_def)
  have e: "(''AppIcon-20x20@1x.png'', 20, 20) \<in> set sizes"
    by (simp add: sizes_def)
  note t = C5_glyph_font_and_centre [OF x]
  from t have "drawn (draw_icon env_helvetica 1024 1024) ! 1 =
      Text ((1024 - (359 - 0)) div 2, (1024 - (605 - 164)) div 2 - 164) ''S'' ''white''
        (select_font env_helvetica 1024 1024)"
    by (rule conjunct2 [THEN conjunct1])
  then have f1: "drawn (draw_icon env_helvetica 1024 1024) ! 1 =
        Text (332, 127) ''S'' ''white'' (TrueType helvetica 614)"
    by (simp add: select_font_helvetica)
  from t have "glyph_boxes env_helvetica (drawn (draw_icon env_helvetica 1024 1024)) =
         [((1024 - (359 - 0)) div 2 + 0, (1024 - (605 - 164)) div 2,
           (1024 - (359 - 0)) div 2 + 359, (1024 - (605 - 164)) div 2 - 164 + 605)]"
    by blast
  then have f2: "glyph_boxes env_helvetica (drawn (draw_icon env_helvetica 1024 1024)) = [(332, 291, 691, 732)]"
    by simp
  from t e have "font_size_of 20 20 = Inr (3 * min 20 20 div 5)" by blast
  then have f3: "font_size_of 20 20 = Inr 12" by simp
  from x f1 f2 f3 show ?thesis by (intro conjI)
qed

text \<open>
  C6. Font selection tries Helvetica, then Arial, and takes the built-in default font
  when neither loads (or when the font size cannot be computed); it always yields a font.
  Whether the font files load changes neither the way \<open>main\<close> ends nor a single
  printed line: a font-loading failure is never raised and never reported.
\<close>

theorem C6_font_fallback:
  "select_font env width height =
     (case font_size_of width height of
        Inl err \<Rightarrow> DefaultFont
      | Inr font_size \<Rightarrow>
          if truetype_loads env helvetica font_size then TrueType helvetica font_size
          else if truetype_loads env arial font_size then TrueType arial font_size
          else DefaultFont)
   \<and> fst (main (env\<lparr>truetype_loads := loads\<rparr>) w) = fst (main env w)
   \<and> stdout (snd (main (env\<lparr>truetype_loads := loads\<rparr>) w)) = stdout (snd (main env w))"
proof -
  have "select_font env width height =
     (case font_size_of width height of
        Inl err \<Rightarrow> DefaultFont
      | Inr font_size \<Rightarrow>
          if truetype_loads env helvetica font_size then TrueType helvetica font_size
          else if truetype_loads env arial font_size then TrueType arial font_size
          else DefaultFont)"
    by (simp add: select_font_def ImageFont_truetype_def load_default_def split: sum.splits)
  then show ?thesis using main_status_loads [where env = env and l = loads and w = w] by simp
qed

theorem C6_font_fallback_witness:
  "select_font env_no_fonts 1024 1024 = DefaultFont
   \<and> fst (main (env_helvetica\<lparr>truetype_loads := (\<lambda>path sz. False)\<rparr>) world_ready) = Inr ()
   \<and> stdout (snd (main (env_helvetica\<lparr>truetype_loads := (\<lambda>path sz. False)\<rparr>) world_ready))
       = stdout (snd (main env_helvetica world_ready))"
proof -
  have m: "fst (main env_helvetica world_ready) = Inr ()"
    by (simp add: main_world_ready)
  have l: "truetype_loads env_no_fonts = (\<lambda>path sz. False)"
    by (simp add: env_no_fonts_def)
  note a = C6_font_fallback [of env_no_fonts 1024 1024, THEN conjunct1]
  note b = C6_font_fallback [of env_helvetica _ _ "\<lambda>path sz. False" world_ready, THEN conjunct2]
  have "select_font env_no_fonts 1024 1024 = DefaultFont"
    using a by (simp add: l font_size_1024)
  with b m show ?thesis by simp
qed

text \<open>
  C7, as stated, fails: the rounded rectangle is not inset. On the 1024 by 1024 canvas its
  box is not strictly inside the pixel bounds of the image.
\<close>

theorem C7_rectangle_counterexample:
  "\<not> strictly_inside (hd (rectangle_boxes (drawn (draw_icon env_helvetica 1024 1024))))
        (pixel_bounds (draw_icon env_helvetica 1024 1024))"
  by (simp add: drawn_draw_icon img_size_draw_icon pixel_bounds_def strictly_inside_def rectangle_xy_def)

text \<open>
  C7, amended. For every width and height the rounded rectangle is drawn on the box from
  \<open>(0, 0)\<close> to \<open>(width - 1, height - 1)\<close>, which is exactly the pixel extent of the
  canvas: the box coincides with the canvas bounds and is never strictly inside them.
\<close>

theorem C7_rectangle_covers_canvas:
  "rectangle_boxes (drawn (draw_icon env width height)) = [((0, 0), (width - 1, height - 1))]
   \<and> pixel_bounds (draw_icon env width height) = ((0, 0), (width - 1, height - 1))
   \<and> \<not> strictly_inside (hd (rectangle_boxes (drawn (draw_icon env width height))))
          (pixel_bounds (draw_icon env width height))"
  by (simp add: drawn_draw_icon img_size_draw_icon pixel_bounds_def strictly_inside_def rectangle_xy_def)

theorem C7_rectangle_covers_canvas_witness:
  "rectangle_boxes (drawn (draw_icon env_no_fonts 20 20)) = [((0, 0), (19, 19))]
   \<and> pixel_bounds (draw_icon env_no_fonts 20 20) = ((0, 0), (19, 19))"
  using C7_rectangle_covers_canvas [of env_no_fonts 20 20] by simp

text \<open>
  C8. On a run that goes through (the output directory exists and \<open>main\<close> returns
  normally), the lines printed are, in this order: the two header lines, one confirmation
  line for every entry of the table, in the order of the table, the completion notice, and
  the note that the images are temporary placeholders, each with the text given here. The
  files are written in the order of the table as well.
\<close>

theorem C8_printed_lines:
  assumes "os_path_exists w output_dir" and "fst (main env w) = Inr ()"
  shows "stdout (snd (main env w)) = stdout w @
     [''Generating placeholder app icons...'',
      ''Output directory: SwipeSort/Assets.xcassets/AppIcon.appiconset'' @ [CHR ''\<newline>'']] @
     map (\<lambda>line. [CHR 0xE2, CHR 0x9C, CHR 0x93] @ '' Created: '' @ line)
       [''AppIcon-20x20@1x.png (20x20)'',
         ''AppIcon-20x20@2x.png (40x40)'',
         ''AppIcon-20x20@3x.png (60x60)'',
         ''AppIcon-29x29@1x.png (29x29)'',
         ''AppIcon-29x29@2x.png (58x58)'',
         ''AppIcon-29x29@3x.png (87x87)'',
         ''AppIcon-40x40@1x.png (40x40)'',
         ''AppIcon-40x40@2x.png (80x80)'',
         ''AppIcon-40x40@3x.png (120x120)'',
         ''AppIcon-60x60@2x.png (120x120)'',
         ''AppIcon-60x60@3x.png (180x180)'',
         ''AppIcon-76x76@1x.png (76x76)'',
         ''AppIcon-76x76@2x.png (152x152)'',
         ''AppIcon-83.5x83.5@2x.png (167x167)'',
         ''AppIcon-1024x1024.png (1024x1024)''] @
     [[CHR ''\<newline>'', CHR 0xE2, CHR 0x9C, CHR 0x93] @
        '' All placeholder icons generated successfully!'',
      [CHR 0xE2, CHR 0x9A, CHR 0xA0, CHR 0xEF, CHR 0xB8, CHR 0x8F] @
        ''  Note: These are temporary placeholder images. Replace with actual app icons before release.'']
     \<and> snd (main env w) = finished (store_all env sizes (started w))"
proof -
  have m: "snd (main env w) = finished (store_all env sizes (started w))"
    using main_returns [OF assms] by simp
  have "stdout (snd (main env w)) =
      stdout w @ (header_lines @ created_lines sizes @ [completion_line, note_line])"
    by (simp add: m stdout_finished stdout_store_all stdout_started)
  then show ?thesis
    unfolding printed_lines_literal using m by (intro conjI)
qed

theorem C8_printed_lines_witness:
  "os_path_exists world_ready output_dir
   \<and> fst (main env_helvetica world_ready) = Inr ()
   \<and> length (stdout (snd (main env_helvetica world_ready))) = 19
   \<and> stdout (snd (main env_helvetica world_ready)) ! 0 = ''Generating placeholder app icons...''
   \<and> stdout (snd (main env_helvetica world_ready)) ! 16 =
        [CHR 0xE2, CHR 0x9C, CHR 0x93] @ '' Created: AppIcon-1024x1024.png (1024x1024)''
   \<and> stdout (snd (main env_helvetica world_ready)) ! 18 =
        [CHR 0xE2, CHR 0x9A, CHR 0xA0, CHR 0xEF, CHR 0xB8, CHR 0x8F] @
        ''  Note: These are temporary placeholder images. Replace with actual app icons before release.''"
proof -
  have m: "fst (main env_helvetica world_ready) = Inr ()"
    by (simp add: main_world_ready)
  have s: "stdout world_ready = []" by (simp add: world_ready_def)
  note t = C8_printed_lines [OF world_ready_exists m, THEN conjunct1]
  have f: "length (stdout (snd (main env_helvetica world_ready))) = 19"
    "stdout (snd (main env_helvetica world_ready)) ! 0 = ''Generating placeholder app icons...''"
    "stdout (snd (main env_helvetica world_ready)) ! 16 =
        [CHR 0xE2, CHR 0x9C, CHR 0x93] @ '' Created: AppIcon-1024x1024.png (1024x1024)''"
    "stdout (snd (main env_helvetica world_ready)) ! 18 =
        [CHR 0xE2, CHR 0x9A, CHR 0xA0, CHR 0xEF, CHR 0xB8, CHR 0x8F] @
        ''  Note: These are temporary placeholder images. Replace with actual app icons before release.''"
    unfolding t s by simp_all
  from world_ready_exists m f show ?thesis by (intro conjI)
qed

text \<open>
  C9. The exit status of the process is 0 exactly when \<open>main\<close> returns normally, and
  no statement of the script sets another one. In particular, when the output directory is
  missing the process ends with status 0 after printing the diagnostic line, which is the
  only trace of the failure.
\<close>

theorem C9_exit_status:
  "fst (script env w) = (if fst (main env w) = Inr () then 0 else 1)
   \<and> (\<not> os_path_exists w output_dir \<longrightarrow> script env w = (0, print error_line w))"
proof -
  have "fst (script env w) = (if fst (main env w) = Inr () then 0 else 1)"
    by (cases "main env w"; cases "fst (main env w)") (auto simp: script_def)
  then show ?thesis by (simp add: script_def main_missing)
qed

theorem C9_exit_status_witness:
  "\<not> os_path_exists world_missing output_dir
   \<and> script env_helvetica world_missing = (0, print error_line world_missing)"
  using C9_exit_status [of env_helvetica world_missing]
  by (simp add: os_path_exists_def world_missing_def)

text \<open>
  C10. The existence of the directory is tested once, before the loop, and nothing is
  tested or undone later. When the saves of the first \<open>i\<close> entries succeed and the save of
  entry \<open>i\<close> raises, the exception leaves \<open>main\<close> and the process (exit status 1); the
  files of the entries before \<open>i\<close> stay written, the paths of entry \<open>i\<close> and of the later
  entries are as they were, and only the header and the first \<open>i\<close> confirmation lines
  have been printed.
\<close>

theorem C10_failure_keeps_earlier_files:
  assumes "os_path_exists w output_dir"
    and "i < length sizes"
    and "\<forall>e \<in> set (take i sizes). can_save env w (output_path_of (fst e))"
    and "\<not> can_save env w (output_path_of (fst (sizes ! i)))"
  shows "fst (main env w) = Inl OSError
     \<and> fst (script env w) = 1
     \<and> (\<forall>(filename, width, height) \<in> set (take i sizes).
          fs (snd (main env w)) (output_path_of filename) = Some (File (draw_icon env width height)))
     \<and> (\<forall>e \<in> set (drop i sizes).
          fs (snd (main env w)) (output_path_of (fst e)) = fs w (output_path_of (fst e)))
     \<and> stdout (snd (main env w)) = stdout w @ header_lines @ created_lines (take i sizes)"
proof -
  have m: "main env w = (Inl OSError, store_all env (take i sizes) (started w))"
    using assms by (rule main_fails)
  have d: "distinct (map fst (take i sizes))"
    using sizes_distinct by (simp add: take_map [symmetric] distinct_take)
  have a: "\<forall>(filename, width, height) \<in> set (take i sizes).
          fs (snd (main env w)) (output_path_of filename) = Some (File (draw_icon env width height))"
    using fs_store_all_entry [OF d] by (auto simp: m)
  have b: "fs (snd (main env w)) (output_path_of (fst e)) = fs w (output_path_of (fst e))"
    if "e \<in> set (drop i sizes)" for e
  proof -
    have "distinct (map fst (take i sizes) @ map fst (drop i sizes))"
      using sizes_distinct by (simp add: map_append [symmetric] del: map_append)
    then have "fst e \<notin> fst ` set (take i sizes)"
      using that by auto
    then have "output_path_of (fst e) \<notin> output_path_of ` fst ` set (take i sizes)"
      unfolding output_path_of_def using os_path_join_inj by blast
    then show ?thesis by (simp add: m fs_store_all_other)
  qed
  have c: "fst (script env w) = 1"
    by (simp add: script_def m)
  show ?thesis
    using a b c by (simp add: m stdout_store_all stdout_started)
qed

theorem C10_failure_keeps_earlier_files_witness:
  "os_path_exists world_blocked output_dir
   \<and> fst (main env_helvetica world_blocked) = Inl OSError
   \<and> fst (script env_helvetica world_blocked) = 1
   \<and> fs (snd (main env_helvetica world_blocked)) (output_path_of ''AppIcon-20x20@3x.png'')
       = Some (File (draw_icon env_helvetica 60 60))
   \<and> fs (snd (main env_helvetica world_blocked)) (output_path_of ''AppIcon-29x29@2x.png'') = None
   \<and> stdout (snd (main env_helvetica world_blocked)) = header_lines @ created_lines (take 3 sizes)"
proof -
  have i: "(3::nat) < length sizes" by (simp add: sizes_def)
  have tk: "take 3 sizes = [(''AppIcon-20x20@1x.png'', 20, 20), (''AppIcon-20x20@2x.png'', 40, 40),
      (''AppIcon-20x20@3x.png'', 60, 60)]"
    by (simp add: sizes_def)
  have pre: "\<forall>e \<in> set (take 3 sizes). can_save env_helvetica world_blocked (output_path_of (fst e))"
    by (simp add: tk world_blocked_can_save)
  have bad: "\<not> can_save env_helvetica world_blocked (output_path_of (fst (sizes ! 3)))"
    by (simp add: sizes_def world_blocked_can_save)
  have later: "(''AppIcon-29x29@2x.png'', 58, 58) \<in> set (drop 3 sizes)"
    by (simp add: sizes_def)
  have before: "(''AppIcon-20x20@3x.png'', 60, 60) \<in> set (take 3 sizes)"
    by (simp add: tk)
  have none: "fs world_blocked (output_path_of ''AppIcon-29x29@2x.png'') = None"
  proof -
    have "output_path_of ''AppIcon-29x29@2x.png'' \<noteq> output_path_of ''AppIcon-29x29@1x.png''"
      unfolding output_path_of_def using os_path_join_inj by fastforce
    then show ?thesis by (simp add: world_blocked_def output_path_neq_dir)
  qed
  have s: "stdout world_blocked = []" by (simp add: world_blocked_def)
  note t = C10_failure_keeps_earlier_files [OF world_blocked_exists i pre bad]
  from t before have f1: "fs (snd (main env_helvetica world_blocked)) (output_path_of ''AppIcon-20x20@3x.png'')
       = Some (File (draw_icon env_helvetica 60 60))"
    by fast
  from t later have "fs (snd (main env_helvetica world_blocked)) (output_path_of ''AppIcon-29x29@2x.png'')
       = fs world_blocked (output_path_of ''AppIcon-29x29@2x.png'')"
    by fastforce
  then have f2: "fs (snd (main env_helvetica world_blocked)) (output_path_of ''AppIcon-29x29@2x.png'') = None"
    by (simp only: none)
  from t have "stdout (snd (main env_helvetica world_blocked)) =
      stdout world_blocked @ header_lines @ created_lines (take 3 sizes)"
    by blast
  then have f3: "stdout (snd (main env_helvetica world_blocked)) = header_lines @ created_lines (take 3 sizes)"
    by (simp only: s append_Nil)
  from t have f4: "fst (main env_helvetica world_blocked) = Inl OSError"
    and f5: "fst (script env_helvetica world_blocked) = 1"
    by blast+
  from world_blocked_exists f1 f2 f3 f4 f5 show ?thesis by (intro conjI)
qed

end
